theory Spec2Isabelle
  imports Main "HOL-Library.Word" "HOL-Library.Multiset"
begin

section \<open>The raw expression tree\<close>

text \<open>
  Modelled from the spec: the raw expression node of package \<open>exprpb\<close>, which
  \<open>common/ast/expr.go\<close> imports and only reads through its generated getters. The spec
  describes it as a tagged union with an integer identifier and seven variants; the fields
  below are exactly those the source reads. Every Go pointer is an \<open>option\<close>
  (\<open>None\<close> is the nil pointer), every slice a list. The literal payload
  (\<open>*exprpb.Constant\<close>) is never inspected by the source and is the type parameter \<open>'c\<close>.
\<close>

datatype 'c Expr = Expr "64 word" "'c isExpr_ExprKind"
and 'c isExpr_ExprKind =
    ExprKind_nil
  | Expr_ConstExpr "'c option"
  | Expr_IdentExpr "string option"
  | Expr_SelectExpr "'c Expr_Select option"
  | Expr_CallExpr "'c Expr_Call option"
  | Expr_ListExpr "'c Expr_CreateList option"
  | Expr_StructExpr "'c Expr_CreateStruct option"
  | Expr_ComprehensionExpr "'c Expr_Comprehension option"
and 'c Expr_Select = Expr_Select "'c Expr option" string bool
and 'c Expr_Call = Expr_Call "'c Expr option" string "'c Expr option list"
and 'c Expr_CreateList = Expr_CreateList "'c Expr option list" "32 word list"
and 'c Expr_CreateStruct = Expr_CreateStruct string "'c Expr_CreateStruct_Entry option list"
and 'c Expr_CreateStruct_Entry =
    Expr_CreateStruct_Entry "64 word" "'c isEntry_KeyKind" "'c Expr option" bool
and 'c isEntry_KeyKind = KeyKind_nil | Entry_FieldKey string | Entry_MapKey "'c Expr option"
and 'c Expr_Comprehension =
    Expr_Comprehension string "'c Expr option" string "'c Expr option" "'c Expr option"
      "'c Expr option" "'c Expr option"

text \<open>
  Modelled from the spec: the generated getters. Each is nil-safe: on a nil receiver, or on a
  node of another variant, it returns the zero value of its result type (nil, the empty
  string, false, the empty slice).
\<close>

fun GetId :: "'c Expr option \<Rightarrow> 64 word" where
  "GetId (Some (Expr i k)) = i"
| "GetId None = 0"

fun GetExprKind :: "'c Expr option \<Rightarrow> 'c isExpr_ExprKind" where
  "GetExprKind (Some (Expr i k)) = k"
| "GetExprKind None = ExprKind_nil"

definition GetConstExpr :: "'c Expr option \<Rightarrow> 'c option" where
  "GetConstExpr x = (case GetExprKind x of Expr_ConstExpr c \<Rightarrow> c | _ \<Rightarrow> None)"

definition GetIdentExpr :: "'c Expr option \<Rightarrow> string option" where
  "GetIdentExpr x = (case GetExprKind x of Expr_IdentExpr n \<Rightarrow> n | _ \<Rightarrow> None)"

definition GetSelectExpr :: "'c Expr option \<Rightarrow> 'c Expr_Select option" where
  "GetSelectExpr x = (case GetExprKind x of Expr_SelectExpr s \<Rightarrow> s | _ \<Rightarrow> None)"

definition GetCallExpr :: "'c Expr option \<Rightarrow> 'c Expr_Call option" where
  "GetCallExpr x = (case GetExprKind x of Expr_CallExpr c \<Rightarrow> c | _ \<Rightarrow> None)"

definition GetListExpr :: "'c Expr option \<Rightarrow> 'c Expr_CreateList option" where
  "GetListExpr x = (case GetExprKind x of Expr_ListExpr l \<Rightarrow> l | _ \<Rightarrow> None)"

definition GetStructExpr :: "'c Expr option \<Rightarrow> 'c Expr_CreateStruct option" where
  "GetStructExpr x = (case GetExprKind x of Expr_StructExpr s \<Rightarrow> s | _ \<Rightarrow> None)"

definition GetComprehensionExpr :: "'c Expr option \<Rightarrow> 'c Expr_Comprehension option" where
  "GetComprehensionExpr x = (case GetExprKind x of Expr_ComprehensionExpr c \<Rightarrow> c | _ \<Rightarrow> None)"

fun GetName :: "string option \<Rightarrow> string" where
  "GetName (Some n) = n"
| "GetName None = []"

fun GetOperand :: "'c Expr_Select option \<Rightarrow> 'c Expr option" where
  "GetOperand (Some (Expr_Select operand field test_only)) = operand"
| "GetOperand None = None"

fun GetField :: "'c Expr_Select option \<Rightarrow> string" where
  "GetField (Some (Expr_Select operand field test_only)) = field"
| "GetField None = []"

fun GetTestOnly :: "'c Expr_Select option \<Rightarrow> bool" where
  "GetTestOnly (Some (Expr_Select operand field test_only)) = test_only"
| "GetTestOnly None = False"

fun GetTarget :: "'c Expr_Call option \<Rightarrow> 'c Expr option" where
  "GetTarget (Some (Expr_Call target function args)) = target"
| "GetTarget None = None"

fun GetFunction :: "'c Expr_Call option \<Rightarrow> string" where
  "GetFunction (Some (Expr_Call target function args)) = function"
| "GetFunction None = []"

fun GetArgs :: "'c Expr_Call option \<Rightarrow> 'c Expr option list" where
  "GetArgs (Some (Expr_Call target function args)) = args"
| "GetArgs None = []"

fun GetElements :: "'c Expr_CreateList option \<Rightarrow> 'c Expr option list" where
  "GetElements (Some (Expr_CreateList elements optional_indices)) = elements"
| "GetElements None = []"

fun GetOptionalIndices :: "'c Expr_CreateList option \<Rightarrow> 32 word list" where
  "GetOptionalIndices (Some (Expr_CreateList elements optional_indices)) = optional_indices"
| "GetOptionalIndices None = []"

fun GetMessageName :: "'c Expr_CreateStruct option \<Rightarrow> string" where
  "GetMessageName (Some (Expr_CreateStruct message_name entries)) = message_name"
| "GetMessageName None = []"

fun GetEntries :: "'c Expr_CreateStruct option \<Rightarrow> 'c Expr_CreateStruct_Entry option list" where
  "GetEntries (Some (Expr_CreateStruct message_name entries)) = entries"
| "GetEntries None = []"

fun GetKeyKind :: "'c Expr_CreateStruct_Entry option \<Rightarrow> 'c isEntry_KeyKind" where
  "GetKeyKind (Some (Expr_CreateStruct_Entry i key_kind v optional_entry)) = key_kind"
| "GetKeyKind None = KeyKind_nil"

definition GetFieldKey :: "'c Expr_CreateStruct_Entry option \<Rightarrow> string" where
  "GetFieldKey e = (case GetKeyKind e of Entry_FieldKey n \<Rightarrow> n | _ \<Rightarrow> [])"

definition GetMapKey :: "'c Expr_CreateStruct_Entry option \<Rightarrow> 'c Expr option" where
  "GetMapKey e = (case GetKeyKind e of Entry_MapKey k \<Rightarrow> k | _ \<Rightarrow> None)"

fun GetValue :: "'c Expr_CreateStruct_Entry option \<Rightarrow> 'c Expr option" where
  "GetValue (Some (Expr_CreateStruct_Entry i key_kind v optional_entry)) = v"
| "GetValue None = None"

fun GetOptionalEntry :: "'c Expr_CreateStruct_Entry option \<Rightarrow> bool" where
  "GetOptionalEntry (Some (Expr_CreateStruct_Entry i key_kind v optional_entry)) = optional_entry"
| "GetOptionalEntry None = False"

fun GetIterVar :: "'c Expr_Comprehension option \<Rightarrow> string" where
  "GetIterVar (Some (Expr_Comprehension iter_var iter_range accu_var accu_init loop_condition
      loop_step result)) = iter_var"
| "GetIterVar None = []"

fun GetIterRange :: "'c Expr_Comprehension option \<Rightarrow> 'c Expr option" where
  "GetIterRange (Some (Expr_Comprehension iter_var iter_range accu_var accu_init loop_condition
      loop_step result)) = iter_range"
| "GetIterRange None = None"

fun GetAccuVar :: "'c Expr_Comprehension option \<Rightarrow> string" where
  "GetAccuVar (Some (Expr_Comprehension iter_var iter_range accu_var accu_init loop_condition
      loop_step result)) = accu_var"
| "GetAccuVar None = []"

fun GetAccuInit :: "'c Expr_Comprehension option \<Rightarrow> 'c Expr option" where
  "GetAccuInit (Some (Expr_Comprehension iter_var iter_range accu_var accu_init loop_condition
      loop_step result)) = accu_init"
| "GetAccuInit None = None"

fun GetLoopCondition :: "'c Expr_Comprehension option \<Rightarrow> 'c Expr option" where
  "GetLoopCondition (Some (Expr_Comprehension iter_var iter_range accu_var accu_init
      loop_condition loop_step result)) = loop_condition"
| "GetLoopCondition None = None"

fun GetLoopStep :: "'c Expr_Comprehension option \<Rightarrow> 'c Expr option" where
  "GetLoopStep (Some (Expr_Comprehension iter_var iter_range accu_var accu_init loop_condition
      loop_step result)) = loop_step"
| "GetLoopStep None = None"

fun GetResult :: "'c Expr_Comprehension option \<Rightarrow> 'c Expr option" where
  "GetResult (Some (Expr_Comprehension iter_var iter_range accu_var accu_init loop_condition
      loop_step result)) = result"
| "GetResult None = None"

section \<open>Expression kinds and the navigable node\<close>

datatype ExprKind =
    UnspecifiedKind
  | LiteralKind
  | IdentKind
  | SelectKind
  | CallKind
  | ListKind
  | MapKind
  | StructKind
  | ComprehensionKind

text \<open>
  The Go type \<open>childFactory\<close> is a function from a node to its children. The source only ever
  stores one of its seven named factory functions in a node, so the field holds the name of
  the function; \<open>call_childFactory\<close> below applies it.
\<close>

datatype childFactory =
    NoopFactory
  | SelectFactory
  | CallArgFactory
  | ListElemFactory
  | StructEntryFactory
  | MapEntryFactory
  | ComprehensionFactory

text \<open>
  The struct \<open>navigableExprImpl\<close>. The type map holds values of the opaque type
  \<open>*types.Type\<close>, the type parameter \<open>'ty\<close>.
\<close>

datatype ('c, 'ty) navigableExprImpl =
  navigableExprImpl
    (parent: "('c, 'ty) navigableExprImpl option")
    (kind: ExprKind)
    (expr: "'c Expr option")
    (typeMap: "64 word \<rightharpoonup> 'ty")
    (createChildren: childFactory)

definition kindOf :: "'c Expr option \<Rightarrow> ExprKind \<times> childFactory" where
  "kindOf e =
     (case GetExprKind e of
        Expr_ConstExpr _ \<Rightarrow> (LiteralKind, NoopFactory)
      | Expr_IdentExpr _ \<Rightarrow> (IdentKind, NoopFactory)
      | Expr_SelectExpr _ \<Rightarrow> (SelectKind, SelectFactory)
      | Expr_CallExpr _ \<Rightarrow> (CallKind, CallArgFactory)
      | Expr_ListExpr _ \<Rightarrow> (ListKind, ListElemFactory)
      | Expr_StructExpr _ \<Rightarrow>
          (if GetMessageName (GetStructExpr e) \<noteq> [] then (StructKind, StructEntryFactory)
           else (MapKind, MapEntryFactory))
      | Expr_ComprehensionExpr _ \<Rightarrow> (ComprehensionKind, ComprehensionFactory)
      | ExprKind_nil \<Rightarrow> (UnspecifiedKind, NoopFactory))"

definition newNavigableExpr ::
  "('c, 'ty) navigableExprImpl option \<Rightarrow> 'c Expr option \<Rightarrow> (64 word \<rightharpoonup> 'ty)
     \<Rightarrow> ('c, 'ty) navigableExprImpl" where
  "newNavigableExpr p e tm =
     (case kindOf e of (k, factory) \<Rightarrow> navigableExprImpl p k e tm factory)"

definition ToExpr :: "('c, 'ty) navigableExprImpl \<Rightarrow> 'c Expr option" where
  "ToExpr nav = expr nav"

definition ID :: "('c, 'ty) navigableExprImpl \<Rightarrow> 64 word" where
  "ID nav = GetId (ToExpr nav)"

definition Kind :: "('c, 'ty) navigableExprImpl \<Rightarrow> ExprKind" where
  "Kind nav = kind nav"

text \<open>
  \<open>Type\<close> reads the global \<open>types.DynType\<close>, which is defined outside the source file: it is
  the first argument here.
\<close>

definition Type :: "'ty \<Rightarrow> ('c, 'ty) navigableExprImpl \<Rightarrow> 'ty" where
  "Type DynType nav = (case typeMap nav (ID nav) of Some t \<Rightarrow> t | None \<Rightarrow> DynType)"

definition Parent ::
  "('c, 'ty) navigableExprImpl \<Rightarrow> ('c, 'ty) navigableExprImpl option \<times> bool" where
  "Parent nav = (case parent nav of Some p \<Rightarrow> (Some p, True) | None \<Rightarrow> (None, False))"

definition createChild ::
  "('c, 'ty) navigableExprImpl \<Rightarrow> 'c Expr option \<Rightarrow> ('c, 'ty) navigableExprImpl" where
  "createChild nav e = newNavigableExpr (Some nav) e (typeMap nav)"

subsection \<open>Child factories\<close>

definition noopFactory :: "('c, 'ty) navigableExprImpl \<Rightarrow> ('c, 'ty) navigableExprImpl list" where
  "noopFactory nav = []"

definition selectFactory :: "('c, 'ty) navigableExprImpl \<Rightarrow> ('c, 'ty) navigableExprImpl list" where
  "selectFactory nav = [createChild nav (GetOperand (GetSelectExpr (ToExpr nav)))]"

definition callArgFactory :: "('c, 'ty) navigableExprImpl \<Rightarrow> ('c, 'ty) navigableExprImpl list" where
  "callArgFactory nav =
     (let call = GetCallExpr (ToExpr nav) in
        (if GetTarget call \<noteq> None then [createChild nav (GetTarget call)] else [])
        @ map (createChild nav) (GetArgs call))"

definition listElemFactory :: "('c, 'ty) navigableExprImpl \<Rightarrow> ('c, 'ty) navigableExprImpl list" where
  "listElemFactory nav = map (createChild nav) (GetElements (GetListExpr (ToExpr nav)))"

definition structEntryFactory ::
  "('c, 'ty) navigableExprImpl \<Rightarrow> ('c, 'ty) navigableExprImpl list" where
  "structEntryFactory nav =
     map (\<lambda>e. createChild nav (GetValue e)) (GetEntries (GetStructExpr (ToExpr nav)))"

definition mapEntryFactory :: "('c, 'ty) navigableExprImpl \<Rightarrow> ('c, 'ty) navigableExprImpl list" where
  "mapEntryFactory nav =
     concat (map (\<lambda>e. [createChild nav (GetMapKey e), createChild nav (GetValue e)])
       (GetEntries (GetStructExpr (ToExpr nav))))"

definition comprehensionFactory ::
  "('c, 'ty) navigableExprImpl \<Rightarrow> ('c, 'ty) navigableExprImpl list" where
  "comprehensionFactory nav =
     (let compre = GetComprehensionExpr (ToExpr nav) in
        [createChild nav (GetIterRange compre),
         createChild nav (GetAccuInit compre),
         createChild nav (GetLoopCondition compre),
         createChild nav (GetLoopStep compre),
         createChild nav (GetResult compre)])"

fun call_childFactory ::
  "childFactory \<Rightarrow> ('c, 'ty) navigableExprImpl \<Rightarrow> ('c, 'ty) navigableExprImpl list" where
  "call_childFactory NoopFactory nav = noopFactory nav"
| "call_childFactory SelectFactory nav = selectFactory nav"
| "call_childFactory CallArgFactory nav = callArgFactory nav"
| "call_childFactory ListElemFactory nav = listElemFactory nav"
| "call_childFactory StructEntryFactory nav = structEntryFactory nav"
| "call_childFactory MapEntryFactory nav = mapEntryFactory nav"
| "call_childFactory ComprehensionFactory nav = comprehensionFactory nav"

definition Children :: "('c, 'ty) navigableExprImpl \<Rightarrow> ('c, 'ty) navigableExprImpl list" where
  "Children nav = call_childFactory (createChildren nav) nav"

subsection \<open>Children are smaller than their node\<close>

text \<open>
  The traversal loops of the source stop because the raw tree is finite. The weight below
  makes that explicit: a node built by \<open>newNavigableExpr\<close> weighs as much as its raw
  expression, every child is built by \<open>createChild\<close> from a part of the raw expression
  (or from nil), and the children of a node together weigh less than the node. A record value
  whose factory does not fit its raw expression (the constructor never builds one) gets five
  more, for the at most five nil children it can have that a fitting node would not.
\<close>

fun rawWeight :: "'c Expr option \<Rightarrow> nat" where
  "rawWeight None = 1"
| "rawWeight (Some x) = 6 * size x"

definition nodeWeight :: "('c, 'ty) navigableExprImpl \<Rightarrow> nat" where
  "nodeWeight nav =
     rawWeight (expr nav) + (if createChildren nav = snd (kindOf (expr nav)) then 0 else 5)"

definition queueWeight :: "('c, 'ty) navigableExprImpl list \<Rightarrow> nat" where
  "queueWeight q = sum_list (map nodeWeight q)"

lemma queueWeight_simps [simp]:
  "queueWeight [] = 0"
  "queueWeight (e # es) = nodeWeight e + queueWeight es"
  "queueWeight (xs @ ys) = queueWeight xs + queueWeight ys"
  by (simp_all add: queueWeight_def)

lemma expr_createChild [simp]: "expr (createChild nav e) = e"
  by (simp add: createChild_def newNavigableExpr_def split: prod.splits)

lemma createChildren_createChild [simp]: "createChildren (createChild nav e) = snd (kindOf e)"
  by (simp add: createChild_def newNavigableExpr_def split: prod.splits)

lemma nodeWeight_createChild [simp]: "nodeWeight (createChild nav e) = rawWeight e"
  by (simp add: nodeWeight_def)

lemma rawWeight_le: "rawWeight e + 5 \<le> 6 * size_option size e"
  by (cases e) simp_all

lemma queueWeight_map_createChild:
  "queueWeight (map (createChild nav) es) \<le> 6 * size_list (size_option size) es"
proof (induction es)
  case Nil
  show ?case by simp
next
  case (Cons e es)
  with rawWeight_le[of e] show ?case by simp
qed

lemma weight_select: "queueWeight (selectFactory nav) < rawWeight (expr nav) + (if expr nav = None then 5 else 0)"
proof (cases "expr nav" rule: GetExprKind.cases)
  case (1 i k)
  show ?thesis
  proof (cases "GetSelectExpr (expr nav)" rule: GetOperand.cases)
    case (1 operand field test_only)
    with \<open>expr nav = Some (Expr i k)\<close> rawWeight_le[of operand] show ?thesis
      by (auto simp: selectFactory_def ToExpr_def GetSelectExpr_def split: isExpr_ExprKind.splits)
  next
    case 2
    with \<open>expr nav = Some (Expr i k)\<close> show ?thesis
      by (simp add: selectFactory_def ToExpr_def)
  qed
next
  case 2
  then show ?thesis by (simp add: selectFactory_def ToExpr_def GetSelectExpr_def)
qed

lemma weight_call: "queueWeight (callArgFactory nav) < rawWeight (expr nav) + (if expr nav = None then 5 else 0)"
proof (cases "expr nav" rule: GetExprKind.cases)
  case (1 i k)
  show ?thesis
  proof (cases "GetCallExpr (expr nav)" rule: GetTarget.cases)
    case (1 target fn args)
    with \<open>expr nav = Some (Expr i k)\<close> rawWeight_le[of target]
      queueWeight_map_createChild[of nav args] show ?thesis
      by (auto simp: callArgFactory_def ToExpr_def GetCallExpr_def split: isExpr_ExprKind.splits)
  next
    case 2
    with \<open>expr nav = Some (Expr i k)\<close> show ?thesis
      by (simp add: callArgFactory_def ToExpr_def)
  qed
next
  case 2
  then show ?thesis by (simp add: callArgFactory_def ToExpr_def GetCallExpr_def)
qed

lemma weight_list: "queueWeight (listElemFactory nav) < rawWeight (expr nav) + (if expr nav = None then 5 else 0)"
proof (cases "expr nav" rule: GetExprKind.cases)
  case (1 i k)
  show ?thesis
  proof (cases "GetListExpr (expr nav)" rule: GetElements.cases)
    case (1 elements optional_indices)
    with \<open>expr nav = Some (Expr i k)\<close> queueWeight_map_createChild[of nav elements] show ?thesis
      by (auto simp: listElemFactory_def ToExpr_def GetListExpr_def split: isExpr_ExprKind.splits)
  next
    case 2
    with \<open>expr nav = Some (Expr i k)\<close> show ?thesis
      by (simp add: listElemFactory_def ToExpr_def)
  qed
next
  case 2
  then show ?thesis by (simp add: listElemFactory_def ToExpr_def GetListExpr_def)
qed

lemma weight_map_entry:
  "rawWeight (GetMapKey e) + rawWeight (GetValue e) \<le> 6 * size_option size e"
  using rawWeight_le[of "GetMapKey e"] rawWeight_le[of "GetValue e"]
  by (cases e rule: GetValue.cases) (auto simp: GetMapKey_def split: isEntry_KeyKind.splits)

lemma weight_struct_entries:
  "queueWeight (map (\<lambda>e. createChild nav (GetValue e)) es) \<le> 6 * size_list (size_option size) es"
proof (induction es)
  case Nil
  show ?case by simp
next
  case (Cons e es)
  have "rawWeight (GetValue e) \<le> 6 * size_option size e"
    using weight_map_entry[of e] by simp
  with Cons show ?case by simp
qed

lemma weight_map_entries:
  "queueWeight (concat (map (\<lambda>e. [createChild nav (GetMapKey e), createChild nav (GetValue e)]) es))
     \<le> 6 * size_list (size_option size) es"
proof (induction es)
  case Nil
  show ?case by simp
next
  case (Cons e es)
  with weight_map_entry[of e] show ?case by simp
qed

lemma weight_struct: "queueWeight (structEntryFactory nav) < rawWeight (expr nav) + (if expr nav = None then 5 else 0)"
proof (cases "expr nav" rule: GetExprKind.cases)
  case (1 i k)
  show ?thesis
  proof (cases "GetStructExpr (expr nav)" rule: GetEntries.cases)
    case (1 message_name entries)
    with \<open>expr nav = Some (Expr i k)\<close> weight_struct_entries[of nav entries] show ?thesis
      by (auto simp: structEntryFactory_def ToExpr_def GetStructExpr_def
          split: isExpr_ExprKind.splits)
  next
    case 2
    with \<open>expr nav = Some (Expr i k)\<close> show ?thesis
      by (simp add: structEntryFactory_def ToExpr_def)
  qed
next
  case 2
  then show ?thesis by (simp add: structEntryFactory_def ToExpr_def GetStructExpr_def)
qed

lemma weight_map: "queueWeight (mapEntryFactory nav) < rawWeight (expr nav) + (if expr nav = None then 5 else 0)"
proof (cases "expr nav" rule: GetExprKind.cases)
  case (1 i k)
  show ?thesis
  proof (cases "GetStructExpr (expr nav)" rule: GetEntries.cases)
    case (1 message_name entries)
    with \<open>expr nav = Some (Expr i k)\<close> weight_map_entries[of nav entries] show ?thesis
      by (auto simp: mapEntryFactory_def ToExpr_def GetStructExpr_def
          split: isExpr_ExprKind.splits)
  next
    case 2
    with \<open>expr nav = Some (Expr i k)\<close> show ?thesis
      by (simp add: mapEntryFactory_def ToExpr_def)
  qed
next
  case 2
  then show ?thesis by (simp add: mapEntryFactory_def ToExpr_def GetStructExpr_def)
qed

lemma weight_comprehension: "queueWeight (comprehensionFactory nav) < rawWeight (expr nav) + (if expr nav = None then 5 else 0)"
proof (cases "expr nav" rule: GetExprKind.cases)
  case (1 i k)
  show ?thesis
  proof (cases "GetComprehensionExpr (expr nav)" rule: GetResult.cases)
    case (1 iter_var iter_range accu_var accu_init loop_condition loop_step result)
    with \<open>expr nav = Some (Expr i k)\<close> rawWeight_le[of iter_range] rawWeight_le[of accu_init]
      rawWeight_le[of loop_condition] rawWeight_le[of loop_step] rawWeight_le[of result]
    show ?thesis
      by (auto simp: comprehensionFactory_def ToExpr_def GetComprehensionExpr_def
          split: isExpr_ExprKind.splits)
  next
    case 2
    with \<open>expr nav = Some (Expr i k)\<close> show ?thesis
      by (simp add: comprehensionFactory_def ToExpr_def)
  qed
next
  case 2
  then show ?thesis by (simp add: comprehensionFactory_def ToExpr_def GetComprehensionExpr_def)
qed

lemma rawWeight_pos: "0 < rawWeight e"
  by (cases e rule: GetExprKind.cases) simp_all

lemma Children_wf_None:
  "expr nav = None \<Longrightarrow> createChildren nav = snd (kindOf (expr nav)) \<Longrightarrow> Children nav = []"
  by (simp add: Children_def kindOf_def noopFactory_def)

lemma queueWeight_Children_raw:
  "queueWeight (Children nav) < rawWeight (expr nav) + (if expr nav = None then 5 else 0)"
  unfolding Children_def
  using weight_select[of nav] weight_call[of nav] weight_list[of nav] weight_struct[of nav]
    weight_map[of nav] weight_comprehension[of nav] rawWeight_pos[of "expr nav"]
  by (cases "createChildren nav") (simp_all add: noopFactory_def)

lemma queueWeight_Children: "queueWeight (Children nav) < nodeWeight nav"
  using queueWeight_Children_raw[of nav] Children_wf_None[of nav]
  by (auto simp: nodeWeight_def split: if_splits)

lemma nodeWeight_pos: "0 < nodeWeight nav"
  by (simp add: nodeWeight_def rawWeight_pos)

section \<open>The matcher engine\<close>

text \<open>
  The \<open>for\<close> loop of \<open>matchListInternal\<close>, with its two variables \<open>matched\<close> and
  \<open>visit\<close>: each turn takes the first node of \<open>visit\<close>, appends it to \<open>matched\<close> when the
  matcher accepts it, and appends its children to the rest of \<open>visit\<close> when descendants are
  to be visited.
\<close>

function matchListInternal_loop ::
  "('c, 'ty) navigableExprImpl list \<Rightarrow> ('c, 'ty) navigableExprImpl list
     \<Rightarrow> (('c, 'ty) navigableExprImpl \<Rightarrow> bool) \<Rightarrow> bool
     \<Rightarrow> ('c, 'ty) navigableExprImpl list" where
  "matchListInternal_loop matched [] matcher visitDescendants = matched"
| "matchListInternal_loop matched (e # rest) matcher visitDescendants =
     matchListInternal_loop (if matcher e then matched @ [e] else matched)
       (if visitDescendants then rest @ Children e else rest) matcher visitDescendants"
  by pat_completeness auto
termination
  by (relation "measure (\<lambda>(matched, visit, matcher, visitDescendants). queueWeight visit)")
    (auto simp: queueWeight_Children nodeWeight_pos)

lemma child_weight: "c \<in> set (Children nav) \<Longrightarrow> nodeWeight c < nodeWeight nav"
proof -
  assume "c \<in> set (Children nav)"
  then have "nodeWeight c \<le> queueWeight (Children nav)"
    unfolding queueWeight_def by (simp add: member_le_sum_list)
  with queueWeight_Children[of nav] show ?thesis by simp
qed

text \<open>
  The loop of \<open>matchIsConstantValue\<close> returns false at the first child that is not
  constant and true when there is none: it is \<open>list_all\<close> over the children.
\<close>

function matchIsConstantValue :: "('c, 'ty) navigableExprImpl \<Rightarrow> bool" where
  "matchIsConstantValue e =
     (if Kind e = LiteralKind then True
      else if Kind e = StructKind \<or> Kind e = MapKind \<or> Kind e = ListKind
        then list_all matchIsConstantValue (Children e)
      else False)"
  by pat_completeness auto
termination
  by (relation "measure nodeWeight") (auto simp: child_weight)

definition matchListInternal ::
  "('c, 'ty) navigableExprImpl list \<Rightarrow> (('c, 'ty) navigableExprImpl \<Rightarrow> bool) \<Rightarrow> bool
     \<Rightarrow> ('c, 'ty) navigableExprImpl list" where
  "matchListInternal visit matcher visitDescendants =
     matchListInternal_loop [] visit matcher visitDescendants"

definition MatchDescendants ::
  "('c, 'ty) navigableExprImpl \<Rightarrow> (('c, 'ty) navigableExprImpl \<Rightarrow> bool)
     \<Rightarrow> ('c, 'ty) navigableExprImpl list" where
  "MatchDescendants e matcher = matchListInternal [e] matcher True"

definition MatchSubset ::
  "('c, 'ty) navigableExprImpl list \<Rightarrow> (('c, 'ty) navigableExprImpl \<Rightarrow> bool)
     \<Rightarrow> ('c, 'ty) navigableExprImpl list" where
  "MatchSubset exprs matcher = (let visit = exprs in matchListInternal visit matcher False)"

definition ConstantValueMatcher :: "('c, 'ty) navigableExprImpl \<Rightarrow> bool" where
  "ConstantValueMatcher = matchIsConstantValue"

definition KindMatcher :: "ExprKind \<Rightarrow> ('c, 'ty) navigableExprImpl \<Rightarrow> bool" where
  "KindMatcher k = (\<lambda>e. Kind e = k)"

definition AllMatcher :: "('c, 'ty) navigableExprImpl \<Rightarrow> bool" where
  "AllMatcher = (\<lambda>e. True)"

section \<open>Kind-specific views\<close>

text \<open>
  Each view is a Go struct embedding the node pointer. A view method that returns a node
  interface returns an \<open>option\<close> where the source can return nil (\<open>Target\<close>), and a node
  where it always returns the result of \<open>createChild\<close>.
\<close>

datatype ('c, 'ty) navigableCallImpl = navigableCallImpl "('c, 'ty) navigableExprImpl"
datatype ('c, 'ty) navigableComprehensionImpl =
  navigableComprehensionImpl "('c, 'ty) navigableExprImpl"
datatype ('c, 'ty) navigableListImpl = navigableListImpl "('c, 'ty) navigableExprImpl"
datatype ('c, 'ty) navigableMapImpl = navigableMapImpl "('c, 'ty) navigableExprImpl"
datatype ('c, 'ty) navigableSelectImpl = navigableSelectImpl "('c, 'ty) navigableExprImpl"
datatype ('c, 'ty) navigableStructImpl = navigableStructImpl "('c, 'ty) navigableExprImpl"

datatype ('c, 'ty) navigableEntryImpl =
  navigableEntryImpl
    (entry_key: "('c, 'ty) navigableExprImpl")
    (entry_val: "('c, 'ty) navigableExprImpl")
    (entry_isOpt: bool)

datatype ('c, 'ty) navigableFieldImpl =
  navigableFieldImpl
    (field_name: string)
    (field_val: "('c, 'ty) navigableExprImpl")
    (field_isOpt: bool)

definition AsCall :: "('c, 'ty) navigableExprImpl \<Rightarrow> ('c, 'ty) navigableCallImpl" where
  "AsCall nav = navigableCallImpl nav"

definition AsComprehension ::
  "('c, 'ty) navigableExprImpl \<Rightarrow> ('c, 'ty) navigableComprehensionImpl" where
  "AsComprehension nav = navigableComprehensionImpl nav"

definition AsIdent :: "('c, 'ty) navigableExprImpl \<Rightarrow> string" where
  "AsIdent nav = GetName (GetIdentExpr (ToExpr nav))"

text \<open>
  \<open>AsLiteral\<close> calls \<open>ConstantToVal\<close>, a function of the package that is defined in another
  file: it is the first argument here. It returns an error (\<open>Inl\<close>) or a value of the
  interface type \<open>ref.Val\<close> (\<open>Inr\<close>, with \<open>None\<close> the nil interface). The result of
  \<open>AsLiteral\<close> is the list of payloads \<open>ConstantToVal\<close> was called with, and either the panic
  with its error (\<open>Inl\<close>) or the returned value (\<open>Inr\<close>).
\<close>

definition AsLiteral ::
  "('c option \<Rightarrow> 'e + 'v option) \<Rightarrow> ('c, 'ty) navigableExprImpl
     \<Rightarrow> 'c option list \<times> ('e + 'v option)" where
  "AsLiteral ConstantToVal nav =
     (if Kind nav \<noteq> LiteralKind then ([], Inr None)
      else
        (case ConstantToVal (GetConstExpr (ToExpr nav)) of
           Inl err \<Rightarrow> ([GetConstExpr (ToExpr nav)], Inl err)
         | Inr val \<Rightarrow> ([GetConstExpr (ToExpr nav)], Inr val)))"

definition AsList :: "('c, 'ty) navigableExprImpl \<Rightarrow> ('c, 'ty) navigableListImpl" where
  "AsList nav = navigableListImpl nav"

definition AsMap :: "('c, 'ty) navigableExprImpl \<Rightarrow> ('c, 'ty) navigableMapImpl" where
  "AsMap nav = navigableMapImpl nav"

definition AsSelect :: "('c, 'ty) navigableExprImpl \<Rightarrow> ('c, 'ty) navigableSelectImpl" where
  "AsSelect nav = navigableSelectImpl nav"

definition AsStruct :: "('c, 'ty) navigableExprImpl \<Rightarrow> ('c, 'ty) navigableStructImpl" where
  "AsStruct nav = navigableStructImpl nav"

fun navigableCallImpl_FunctionName :: "('c, 'ty) navigableCallImpl \<Rightarrow> string" where
  "navigableCallImpl_FunctionName (navigableCallImpl nav) = GetFunction (GetCallExpr (ToExpr nav))"

fun navigableCallImpl_Target ::
  "('c, 'ty) navigableCallImpl \<Rightarrow> ('c, 'ty) navigableExprImpl option" where
  "navigableCallImpl_Target (navigableCallImpl nav) =
     (let t = GetTarget (GetCallExpr (ToExpr nav)) in
        if t \<noteq> None then Some (createChild nav t) else None)"

fun navigableCallImpl_Args ::
  "('c, 'ty) navigableCallImpl \<Rightarrow> ('c, 'ty) navigableExprImpl list" where
  "navigableCallImpl_Args (navigableCallImpl nav) =
     map (createChild nav) (GetArgs (GetCallExpr (ToExpr nav)))"

fun navigableCallImpl_ReturnType :: "'ty \<Rightarrow> ('c, 'ty) navigableCallImpl \<Rightarrow> 'ty" where
  "navigableCallImpl_ReturnType DynType (navigableCallImpl nav) = Type DynType nav"

definition FunctionMatcher :: "string \<Rightarrow> ('c, 'ty) navigableExprImpl \<Rightarrow> bool" where
  "FunctionMatcher funcName =
     (\<lambda>e. if Kind e \<noteq> CallKind then False
          else navigableCallImpl_FunctionName (AsCall e) = funcName)"

fun navigableComprehensionImpl_IterRange ::
  "('c, 'ty) navigableComprehensionImpl \<Rightarrow> ('c, 'ty) navigableExprImpl" where
  "navigableComprehensionImpl_IterRange (navigableComprehensionImpl nav) =
     createChild nav (GetIterRange (GetComprehensionExpr (ToExpr nav)))"

fun navigableComprehensionImpl_IterVar :: "('c, 'ty) navigableComprehensionImpl \<Rightarrow> string" where
  "navigableComprehensionImpl_IterVar (navigableComprehensionImpl nav) =
     GetIterVar (GetComprehensionExpr (ToExpr nav))"

fun navigableComprehensionImpl_AccuVar :: "('c, 'ty) navigableComprehensionImpl \<Rightarrow> string" where
  "navigableComprehensionImpl_AccuVar (navigableComprehensionImpl nav) =
     GetAccuVar (GetComprehensionExpr (ToExpr nav))"

fun navigableComprehensionImpl_AccuInit ::
  "('c, 'ty) navigableComprehensionImpl \<Rightarrow> ('c, 'ty) navigableExprImpl" where
  "navigableComprehensionImpl_AccuInit (navigableComprehensionImpl nav) =
     createChild nav (GetAccuInit (GetComprehensionExpr (ToExpr nav)))"

fun navigableComprehensionImpl_LoopCondition ::
  "('c, 'ty) navigableComprehensionImpl \<Rightarrow> ('c, 'ty) navigableExprImpl" where
  "navigableComprehensionImpl_LoopCondition (navigableComprehensionImpl nav) =
     createChild nav (GetLoopCondition (GetComprehensionExpr (ToExpr nav)))"

fun navigableComprehensionImpl_LoopStep ::
  "('c, 'ty) navigableComprehensionImpl \<Rightarrow> ('c, 'ty) navigableExprImpl" where
  "navigableComprehensionImpl_LoopStep (navigableComprehensionImpl nav) =
     createChild nav (GetLoopStep (GetComprehensionExpr (ToExpr nav)))"

fun navigableComprehensionImpl_Result ::
  "('c, 'ty) navigableComprehensionImpl \<Rightarrow> ('c, 'ty) navigableExprImpl" where
  "navigableComprehensionImpl_Result (navigableComprehensionImpl nav) =
     createChild nav (GetResult (GetComprehensionExpr (ToExpr nav)))"

fun navigableListImpl_Elements ::
  "('c, 'ty) navigableListImpl \<Rightarrow> ('c, 'ty) navigableExprImpl list" where
  "navigableListImpl_Elements (navigableListImpl nav) = Children nav"

fun navigableListImpl_OptionalIndices :: "('c, 'ty) navigableListImpl \<Rightarrow> 32 word list" where
  "navigableListImpl_OptionalIndices (navigableListImpl nav) =
     GetOptionalIndices (GetListExpr (ToExpr nav))"

fun navigableListImpl_Size :: "('c, 'ty) navigableListImpl \<Rightarrow> nat" where
  "navigableListImpl_Size (navigableListImpl nav) = length (GetElements (GetListExpr (ToExpr nav)))"

fun navigableMapImpl_Entries ::
  "('c, 'ty) navigableMapImpl \<Rightarrow> ('c, 'ty) navigableEntryImpl list" where
  "navigableMapImpl_Entries (navigableMapImpl nav) =
     (let mapExpr = GetStructExpr (ToExpr nav) in
        map (\<lambda>e. navigableEntryImpl (createChild nav (GetMapKey e))
                   (createChild nav (GetValue e)) (GetOptionalEntry e))
          (GetEntries mapExpr))"

fun navigableMapImpl_Size :: "('c, 'ty) navigableMapImpl \<Rightarrow> nat" where
  "navigableMapImpl_Size (navigableMapImpl nav) = length (GetEntries (GetStructExpr (ToExpr nav)))"

definition navigableEntryImpl_Key ::
  "('c, 'ty) navigableEntryImpl \<Rightarrow> ('c, 'ty) navigableExprImpl" where
  "navigableEntryImpl_Key e = entry_key e"

definition navigableEntryImpl_Value ::
  "('c, 'ty) navigableEntryImpl \<Rightarrow> ('c, 'ty) navigableExprImpl" where
  "navigableEntryImpl_Value e = entry_val e"

definition navigableEntryImpl_IsOptional :: "('c, 'ty) navigableEntryImpl \<Rightarrow> bool" where
  "navigableEntryImpl_IsOptional e = entry_isOpt e"

fun navigableSelectImpl_FieldName :: "('c, 'ty) navigableSelectImpl \<Rightarrow> string" where
  "navigableSelectImpl_FieldName (navigableSelectImpl nav) = GetField (GetSelectExpr (ToExpr nav))"

fun navigableSelectImpl_IsTestOnly :: "('c, 'ty) navigableSelectImpl \<Rightarrow> bool" where
  "navigableSelectImpl_IsTestOnly (navigableSelectImpl nav) =
     GetTestOnly (GetSelectExpr (ToExpr nav))"

fun navigableSelectImpl_Operand ::
  "('c, 'ty) navigableSelectImpl \<Rightarrow> ('c, 'ty) navigableExprImpl" where
  "navigableSelectImpl_Operand (navigableSelectImpl nav) =
     createChild nav (GetOperand (GetSelectExpr (ToExpr nav)))"

fun navigableStructImpl_TypeName :: "('c, 'ty) navigableStructImpl \<Rightarrow> string" where
  "navigableStructImpl_TypeName (navigableStructImpl nav) =
     GetMessageName (GetStructExpr (ToExpr nav))"

fun navigableStructImpl_Fields ::
  "('c, 'ty) navigableStructImpl \<Rightarrow> ('c, 'ty) navigableFieldImpl list" where
  "navigableStructImpl_Fields (navigableStructImpl nav) =
     (let fieldInits = GetEntries (GetStructExpr (ToExpr nav)) in
        map (\<lambda>f. navigableFieldImpl (GetFieldKey f) (createChild nav (GetValue f))
                   (GetOptionalEntry f))
          fieldInits)"

definition navigableFieldImpl_FieldName :: "('c, 'ty) navigableFieldImpl \<Rightarrow> string" where
  "navigableFieldImpl_FieldName f = field_name f"

definition navigableFieldImpl_Value ::
  "('c, 'ty) navigableFieldImpl \<Rightarrow> ('c, 'ty) navigableExprImpl" where
  "navigableFieldImpl_Value f = field_val f"

definition navigableFieldImpl_IsOptional :: "('c, 'ty) navigableFieldImpl \<Rightarrow> bool" where
  "navigableFieldImpl_IsOptional f = field_isOpt f"

section \<open>Traversal orders used to state the results\<close>

text \<open>
  These three functions are not in the source. \<open>nodesAtDepth root k\<close> lists the nodes \<open>k\<close>
  steps below \<open>root\<close>, the children of each node in the order \<open>Children\<close> gives them;
  \<open>treeDepth\<close> is the number of levels of a tree; \<open>subtree\<close> lists every node of a tree
  once, a node before its descendants.
\<close>

primrec nodesAtDepth ::
  "('c, 'ty) navigableExprImpl \<Rightarrow> nat \<Rightarrow> ('c, 'ty) navigableExprImpl list" where
  "nodesAtDepth root 0 = [root]"
| "nodesAtDepth root (Suc k) = concat (map Children (nodesAtDepth root k))"

function treeDepth :: "('c, 'ty) navigableExprImpl \<Rightarrow> nat" where
  "treeDepth nav = Suc (foldr max (map treeDepth (Children nav)) 0)"
  by pat_completeness auto
termination
  by (relation "measure nodeWeight") (auto simp: child_weight)

function subtree :: "('c, 'ty) navigableExprImpl \<Rightarrow> ('c, 'ty) navigableExprImpl list" where
  "subtree nav = nav # concat (map subtree (Children nav))"
  by pat_completeness auto
termination
  by (relation "measure nodeWeight") (auto simp: child_weight)

text \<open>The same for a list of trees: the nodes \<open>k\<close> steps below the nodes of a queue, and the
  number of levels of the deepest tree of a queue.\<close>

primrec levelFrom ::
  "('c, 'ty) navigableExprImpl list \<Rightarrow> nat \<Rightarrow> ('c, 'ty) navigableExprImpl list" where
  "levelFrom q 0 = q"
| "levelFrom q (Suc k) = concat (map Children (levelFrom q k))"

definition forestDepth :: "('c, 'ty) navigableExprImpl list \<Rightarrow> nat" where
  "forestDepth q = foldr max (map treeDepth q) 0"

declare treeDepth.simps [simp del]

declare subtree.simps [simp del]

section \<open>Nodes as heap objects\<close>

text \<open>
  In the source a node is a pointer to a \<open>navigableExprImpl\<close> struct, and every call of
  \<open>createChild\<close> allocates a new struct. Where a statement is about handles and not only
  about values, the heap is explicit: a list of structs, a handle being an index into it, and
  allocation appending to the list. The parent field holds a handle. Each function below is
  the function of the same name above, with the heap passed in and returned.
\<close>

datatype ('c, 'ty) navigableExprImpl_cell =
  navigableExprImpl_cell
    (parent_h: "nat option")
    (kind_h: ExprKind)
    (expr_h: "'c Expr option")
    (typeMap_h: "64 word \<rightharpoonup> 'ty")
    (createChildren_h: childFactory)

type_synonym ('c, 'ty) heap = "('c, 'ty) navigableExprImpl_cell list"

definition newNavigableExpr_h ::
  "('c, 'ty) heap \<Rightarrow> nat option \<Rightarrow> 'c Expr option \<Rightarrow> (64 word \<rightharpoonup> 'ty) \<Rightarrow> nat \<times> ('c, 'ty) heap" where
  "newNavigableExpr_h h p e tm =
     (case kindOf e of (k, factory) \<Rightarrow> (length h, h @ [navigableExprImpl_cell p k e tm factory]))"

definition createChild_h ::
  "('c, 'ty) heap \<Rightarrow> nat \<Rightarrow> 'c Expr option \<Rightarrow> nat \<times> ('c, 'ty) heap" where
  "createChild_h h nav e = newNavigableExpr_h h (Some nav) e (typeMap_h (h ! nav))"

fun createEach_h ::
  "('c, 'ty) heap \<Rightarrow> nat \<Rightarrow> 'c Expr option list \<Rightarrow> nat list \<times> ('c, 'ty) heap" where
  "createEach_h h nav [] = ([], h)"
| "createEach_h h nav (e # es) =
     (case createChild_h h nav e of (c, h1) \<Rightarrow>
        (case createEach_h h1 nav es of (cs, h2) \<Rightarrow> (c # cs, h2)))"


definition ToExpr_h :: "('c, 'ty) heap \<Rightarrow> nat \<Rightarrow> 'c Expr option" where
  "ToExpr_h h nav = expr_h (h ! nav)"

definition ID_h :: "('c, 'ty) heap \<Rightarrow> nat \<Rightarrow> 64 word" where
  "ID_h h nav = GetId (ToExpr_h h nav)"

definition Kind_h :: "('c, 'ty) heap \<Rightarrow> nat \<Rightarrow> ExprKind" where
  "Kind_h h nav = kind_h (h ! nav)"

definition noopFactory_h :: "('c, 'ty) heap \<Rightarrow> nat \<Rightarrow> nat list \<times> ('c, 'ty) heap" where
  "noopFactory_h h nav = ([], h)"

definition selectFactory_h :: "('c, 'ty) heap \<Rightarrow> nat \<Rightarrow> nat list \<times> ('c, 'ty) heap" where
  "selectFactory_h h nav = createEach_h h nav [GetOperand (GetSelectExpr (ToExpr_h h nav))]"

definition callArgFactory_h :: "('c, 'ty) heap \<Rightarrow> nat \<Rightarrow> nat list \<times> ('c, 'ty) heap" where
  "callArgFactory_h h nav =
     (let call = GetCallExpr (ToExpr_h h nav) in
        createEach_h h nav
          ((if GetTarget call \<noteq> None then [GetTarget call] else []) @ GetArgs call))"

definition listElemFactory_h :: "('c, 'ty) heap \<Rightarrow> nat \<Rightarrow> nat list \<times> ('c, 'ty) heap" where
  "listElemFactory_h h nav = createEach_h h nav (GetElements (GetListExpr (ToExpr_h h nav)))"

definition structEntryFactory_h :: "('c, 'ty) heap \<Rightarrow> nat \<Rightarrow> nat list \<times> ('c, 'ty) heap" where
  "structEntryFactory_h h nav =
     createEach_h h nav (map GetValue (GetEntries (GetStructExpr (ToExpr_h h nav))))"

definition mapEntryFactory_h :: "('c, 'ty) heap \<Rightarrow> nat \<Rightarrow> nat list \<times> ('c, 'ty) heap" where
  "mapEntryFactory_h h nav =
     createEach_h h nav
       (concat (map (\<lambda>e. [GetMapKey e, GetValue e]) (GetEntries (GetStructExpr (ToExpr_h h nav)))))"

definition comprehensionFactory_h :: "('c, 'ty) heap \<Rightarrow> nat \<Rightarrow> nat list \<times> ('c, 'ty) heap" where
  "comprehensionFactory_h h nav =
     (let compre = GetComprehensionExpr (ToExpr_h h nav) in
        createEach_h h nav
          [GetIterRange compre, GetAccuInit compre, GetLoopCondition compre,
           GetLoopStep compre, GetResult compre])"

fun call_childFactory_h ::
  "childFactory \<Rightarrow> ('c, 'ty) heap \<Rightarrow> nat \<Rightarrow> nat list \<times> ('c, 'ty) heap" where
  "call_childFactory_h NoopFactory h nav = noopFactory_h h nav"
| "call_childFactory_h SelectFactory h nav = selectFactory_h h nav"
| "call_childFactory_h CallArgFactory h nav = callArgFactory_h h nav"
| "call_childFactory_h ListElemFactory h nav = listElemFactory_h h nav"
| "call_childFactory_h StructEntryFactory h nav = structEntryFactory_h h nav"
| "call_childFactory_h MapEntryFactory h nav = mapEntryFactory_h h nav"
| "call_childFactory_h ComprehensionFactory h nav = comprehensionFactory_h h nav"

definition Children_h :: "('c, 'ty) heap \<Rightarrow> nat \<Rightarrow> nat list \<times> ('c, 'ty) heap" where
  "Children_h h nav = call_childFactory_h (createChildren_h (h ! nav)) h nav"

text \<open>The raw expressions a factory hands to \<open>createChild\<close>, in order.\<close>

fun rawChildren :: "childFactory \<Rightarrow> 'c Expr option \<Rightarrow> 'c Expr option list" where
  "rawChildren NoopFactory e = []"
| "rawChildren SelectFactory e = [GetOperand (GetSelectExpr e)]"
| "rawChildren CallArgFactory e =
     (if GetTarget (GetCallExpr e) \<noteq> None then [GetTarget (GetCallExpr e)] else [])
     @ GetArgs (GetCallExpr e)"
| "rawChildren ListElemFactory e = GetElements (GetListExpr e)"
| "rawChildren StructEntryFactory e = map GetValue (GetEntries (GetStructExpr e))"
| "rawChildren MapEntryFactory e =
     concat (map (\<lambda>en. [GetMapKey en, GetValue en]) (GetEntries (GetStructExpr e)))"
| "rawChildren ComprehensionFactory e =
     [GetIterRange (GetComprehensionExpr e), GetAccuInit (GetComprehensionExpr e),
      GetLoopCondition (GetComprehensionExpr e), GetLoopStep (GetComprehensionExpr e),
      GetResult (GetComprehensionExpr e)]"

definition childCell ::
  "nat \<Rightarrow> (64 word \<rightharpoonup> 'ty) \<Rightarrow> 'c Expr option \<Rightarrow> ('c, 'ty) navigableExprImpl_cell" where
  "childCell nav tm e = navigableExprImpl_cell (Some nav) (fst (kindOf e)) e tm (snd (kindOf e))"

section \<open>Example trees\<close>

text \<open>
  Literal payloads and types are strings in the examples. The trees are those of the
  examples of the specification: \<open>greet(name)\<close>, \<open>name.greet()\<close>, \<open>[1, 2, 3]\<close>,
  \<open>[1, greet(name)]\<close>, \<open>a && (b || c)\<close>, a struct \<open>T{f: 1}\<close> and a map \<open>{k: 1}\<close>.
\<close>

definition ex_lit :: "64 word \<Rightarrow> string \<Rightarrow> string Expr option" where
  "ex_lit i c = Some (Expr i (Expr_ConstExpr (Some c)))"

definition ex_ident :: "64 word \<Rightarrow> string \<Rightarrow> string Expr option" where
  "ex_ident i n = Some (Expr i (Expr_IdentExpr (Some n)))"

definition ex_call ::
  "64 word \<Rightarrow> string Expr option \<Rightarrow> string \<Rightarrow> string Expr option list \<Rightarrow> string Expr option" where
  "ex_call i target fn args = Some (Expr i (Expr_CallExpr (Some (Expr_Call target fn args))))"

definition ex_list :: "64 word \<Rightarrow> string Expr option list \<Rightarrow> string Expr option" where
  "ex_list i elems = Some (Expr i (Expr_ListExpr (Some (Expr_CreateList elems []))))"

definition ex_struct :: "string Expr option" where
  "ex_struct =
     Some (Expr 1 (Expr_StructExpr (Some (Expr_CreateStruct ''T''
       [Some (Expr_CreateStruct_Entry 2 (Entry_FieldKey ''f'') (ex_lit 3 ''1'') False)]))))"

definition ex_map :: "string Expr option" where
  "ex_map =
     Some (Expr 1 (Expr_StructExpr (Some (Expr_CreateStruct []
       [Some (Expr_CreateStruct_Entry 2 (Entry_MapKey (ex_lit 3 ''k'')) (ex_lit 4 ''1'')
          False)]))))"

definition ex_comprehension :: "string Expr option" where
  "ex_comprehension =
     Some (Expr 1 (Expr_ComprehensionExpr (Some (Expr_Comprehension ''x'' (ex_ident 2 ''items'')
       ''sum'' (ex_lit 3 ''0'') (ex_lit 4 ''true'')
       (ex_call 5 None ''_+_'' [ex_ident 6 ''sum'', ex_ident 7 ''x'']) (ex_ident 8 ''sum'')))))"

definition ex_greet :: "string Expr option" where
  "ex_greet = ex_call 1 None ''greet'' [ex_ident 2 ''name'']"

definition ex_method :: "string Expr option" where
  "ex_method = ex_call 1 (ex_ident 2 ''name'') ''greet'' []"

definition ex_and_or :: "string Expr option" where
  "ex_and_or =
     ex_call 1 None ''_&&_''
       [ex_ident 2 ''a'', ex_call 3 None ''_||_'' [ex_ident 4 ''b'', ex_ident 5 ''c'']]"

definition ex_root :: "string Expr option \<Rightarrow> (string, string) navigableExprImpl" where
  "ex_root e = newNavigableExpr None e Map.empty"

definition ex_ConstantToVal :: "string option \<Rightarrow> string + string option" where
  "ex_ConstantToVal c =
     (case c of None \<Rightarrow> Inl ''nil constant''
      | Some s \<Rightarrow> if s = ''bad'' then Inl ''malformed'' else Inr (Some s))"

definition ex_heap :: "(string, string) heap" where
  "ex_heap = snd (newNavigableExpr_h [] None (ex_list 1 [ex_lit 2 ''1'', ex_lit 3 ''2'']) Map.empty)"

section \<open>Auxiliary facts\<close>

lemmas ex_defs =
  ex_lit_def ex_ident_def ex_call_def ex_list_def ex_struct_def ex_map_def ex_comprehension_def
  ex_greet_def ex_method_def ex_and_or_def ex_root_def ex_ConstantToVal_def

lemmas nav_eval =
  newNavigableExpr_def createChild_def kindOf_def Children_def Kind_def ToExpr_def ID_def
  GetConstExpr_def GetIdentExpr_def GetSelectExpr_def GetCallExpr_def GetListExpr_def
  GetStructExpr_def GetComprehensionExpr_def GetFieldKey_def GetMapKey_def
  noopFactory_def selectFactory_def callArgFactory_def listElemFactory_def
  structEntryFactory_def mapEntryFactory_def comprehensionFactory_def Let_def

lemmas heap_eval =
  Children_h_def newNavigableExpr_h_def createChild_h_def ToExpr_h_def ID_h_def Kind_h_def
  noopFactory_h_def selectFactory_h_def callArgFactory_h_def listElemFactory_h_def
  structEntryFactory_h_def mapEntryFactory_h_def comprehensionFactory_h_def ex_heap_def

lemma queueWeight_concat_Children:
  "q \<noteq> [] \<Longrightarrow> queueWeight (concat (map Children q)) < queueWeight q"
proof (induction q)
  case Nil
  then show ?case by simp
next
  case (Cons x q)
  show ?case
  proof (cases "q = []")
    case True
    then show ?thesis using queueWeight_Children[of x] by simp
  next
    case False
    with Cons queueWeight_Children[of x] show ?thesis by simp
  qed
qed

lemma loop_no_descend:
  "matchListInternal_loop matched visit matcher False = matched @ filter matcher visit"
  by (induction visit arbitrary: matched) simp_all

lemma upt_add_Suc: "[a ..< a + Suc n] = a # [Suc a ..< Suc a + n]"
  by (subst upt_rec) simp

lemma Children_rawChildren:
  "Children nav = map (createChild nav) (rawChildren (createChildren nav) (expr nav))"
  by (cases "createChildren nav")
    (simp_all add: Children_def noopFactory_def selectFactory_def callArgFactory_def
      listElemFactory_def structEntryFactory_def mapEntryFactory_def comprehensionFactory_def
      ToExpr_def Let_def comp_def map_concat)

lemma createEach_h_eq:
  "nav < length h \<Longrightarrow>
     createEach_h h nav es =
       ([length h ..< length h + length es], h @ map (childCell nav (typeMap_h (h ! nav))) es)"
proof (induction es arbitrary: h)
  case Nil
  show ?case by simp
next
  case (Cons e es)
  let ?h1 = "h @ [childCell nav (typeMap_h (h ! nav)) e]"
  have c: "createChild_h h nav e = (length h, ?h1)"
    by (simp add: createChild_h_def newNavigableExpr_h_def childCell_def split: prod.splits)
  have nav1: "nav < length ?h1" using Cons.prems by simp
  have same: "?h1 ! nav = h ! nav" using Cons.prems by (simp add: nth_append)
  have upt: "[length h ..< length h + length (e # es)]
      = length h # [length ?h1 ..< length ?h1 + length es]"
    using upt_add_Suc[of "length h" "length es"] by simp
  show ?case
    unfolding upt using Cons.IH[OF nav1] c same by simp
qed

lemma Children_h_eq:
  "nav < length h \<Longrightarrow>
     Children_h h nav =
       (let es = rawChildren (createChildren_h (h ! nav)) (expr_h (h ! nav)) in
          ([length h ..< length h + length es], h @ map (childCell nav (typeMap_h (h ! nav))) es))"
  by (cases "createChildren_h (h ! nav)")
    (simp_all add: Children_h_def noopFactory_h_def selectFactory_h_def callArgFactory_h_def
      listElemFactory_h_def structEntryFactory_h_def mapEntryFactory_h_def
      comprehensionFactory_h_def ToExpr_h_def Let_def createEach_h_eq
      del: createEach_h.simps)

lemma loop_prefix:
  "matchListInternal_loop (pre @ matched) visit matcher visitDescendants
     = pre @ matchListInternal_loop matched visit matcher visitDescendants"
proof (induction matched visit matcher visitDescendants arbitrary: pre
    rule: matchListInternal_loop.induct)
  case (1 matched matcher visitDescendants)
  show ?case by simp
next
  case (2 matched e rest matcher visitDescendants)
  show ?case
    using "2.IH" [of pre] by (cases "matcher e") simp_all
qed

lemma walk_Nil: "matchListInternal [] matcher visitDescendants = []"
  by (simp add: matchListInternal_def)

lemma walk_all_Cons:
  "matchListInternal (e # rest) AllMatcher True
     = e # matchListInternal (rest @ Children e) AllMatcher True"
  using loop_prefix [of "[e]" "[]" "rest @ Children e" AllMatcher True]
  by (simp add: matchListInternal_def AllMatcher_def)

lemma walk_all_append:
  "matchListInternal (xs @ ys) AllMatcher True
     = xs @ matchListInternal (ys @ concat (map Children xs)) AllMatcher True"
proof (induction xs arbitrary: ys)
  case Nil
  show ?case by simp
next
  case (Cons x xs)
  have "matchListInternal ((x # xs) @ ys) AllMatcher True
      = x # matchListInternal (xs @ (ys @ Children x)) AllMatcher True"
    by (simp add: walk_all_Cons)
  also have "\<dots> = x # xs @ matchListInternal ((ys @ Children x) @ concat (map Children xs)) AllMatcher True"
    by (simp only: Cons.IH)
  finally show ?case by simp
qed

lemma walk_all_level:
  "matchListInternal q AllMatcher True
     = q @ matchListInternal (concat (map Children q)) AllMatcher True"
  using walk_all_append [of q "[]"] by simp

lemma levelFrom_shift: "levelFrom q (Suc k) = levelFrom (concat (map Children q)) k"
  by (induction k) simp_all

lemma nodesAtDepth_levelFrom: "nodesAtDepth root k = levelFrom [root] k"
  by (induction k) simp_all

lemma forestDepth_simps [simp]:
  "forestDepth [] = 0"
  "forestDepth (x # q) = max (treeDepth x) (forestDepth q)"
  by (simp_all add: forestDepth_def)

lemma forestDepth_append: "forestDepth (xs @ ys) = max (forestDepth xs) (forestDepth ys)"
  by (induction xs) simp_all

lemma treeDepth_eq: "treeDepth nav = Suc (forestDepth (Children nav))"
  by (simp add: forestDepth_def treeDepth.simps [of nav])

lemma forestDepth_step:
  "q \<noteq> [] \<Longrightarrow> forestDepth q = Suc (forestDepth (concat (map Children q)))"
proof (induction q)
  case Nil
  then show ?case by simp
next
  case (Cons x q)
  show ?case
  proof (cases "q = []")
    case True
    then show ?thesis by (simp add: treeDepth_eq)
  next
    case False
    with Cons.IH show ?thesis by (simp add: treeDepth_eq forestDepth_append)
  qed
qed

lemma walk_all_levels:
  "matchListInternal q AllMatcher True = concat (map (levelFrom q) [0..<forestDepth q])"
proof (induction q rule: measure_induct_rule [where f = queueWeight])
  case (less q)
  show ?case
  proof (cases "q = []")
    case True
    then show ?thesis by (simp add: walk_Nil)
  next
    case False
    let ?q' = "concat (map Children q)"
    have d: "forestDepth q = Suc (forestDepth ?q')"
      using False by (rule forestDepth_step)
    have ih: "matchListInternal ?q' AllMatcher True
        = concat (map (levelFrom ?q') [0..<forestDepth ?q'])"
      using less.IH [of ?q'] queueWeight_concat_Children [OF False] by simp
    have idx: "[0..<Suc (forestDepth ?q')] = 0 # map Suc [0..<forestDepth ?q']"
      by (simp add: upt_conv_Cons map_Suc_upt del: upt_Suc)
    have "concat (map (levelFrom q) [0..<forestDepth q])
        = q @ concat (map (\<lambda>k. levelFrom q (Suc k)) [0..<forestDepth ?q'])"
      unfolding d idx by (simp add: comp_def)
    also have "\<dots> = q @ concat (map (levelFrom ?q') [0..<forestDepth ?q'])"
      by (simp only: levelFrom_shift)
    also have "\<dots> = matchListInternal q AllMatcher True"
      using walk_all_level [of q] ih by simp
    finally show ?thesis by simp
  qed
qed

lemma walk_all_mset:
  "mset (matchListInternal q AllMatcher True) = mset (concat (map subtree q))"
proof (induction q rule: measure_induct_rule [where f = queueWeight])
  case (less q)
  show ?case
  proof (cases q)
    case Nil
    then show ?thesis by (simp add: walk_Nil)
  next
    case (Cons x rest)
    have "queueWeight (rest @ Children x) < queueWeight q"
      using queueWeight_Children [of x] by (simp add: Cons)
    then have ih: "mset (matchListInternal (rest @ Children x) AllMatcher True)
        = mset (concat (map subtree (rest @ Children x)))"
      by (rule less.IH)
    show ?thesis
      unfolding Cons walk_all_Cons
      by (simp add: ih subtree.simps [of x])
  qed
qed

lemma Kind_newNavigableExpr: "Kind (newNavigableExpr p e tm) = fst (kindOf e)"
  by (simp add: Kind_def newNavigableExpr_def split: prod.splits)

lemma createChildren_newNavigableExpr:
  "createChildren (newNavigableExpr p e tm) = snd (kindOf e)"
  by (simp add: newNavigableExpr_def split: prod.splits)

lemma ToExpr_newNavigableExpr: "ToExpr (newNavigableExpr p e tm) = e"
  by (simp add: ToExpr_def newNavigableExpr_def split: prod.splits)

lemma kindOf_CallKind: "fst (kindOf e) = CallKind \<Longrightarrow> snd (kindOf e) = CallArgFactory"
  by (auto simp: kindOf_def split: isExpr_ExprKind.splits if_splits)

text \<open>
  The heap functions and the value functions agree: the structs that \<open>Children_h\<close>
  allocates have the kinds, raw expressions and factories of the nodes \<open>Children\<close> returns.
\<close>

lemma Children_h_agrees:
  assumes "a < length h"
    and "expr_h (h ! a) = expr nav"
    and "createChildren_h (h ! a) = createChildren nav"
    and "Children_h h a = (cs, h')"
  shows "map (\<lambda>c. (kind_h (h' ! c), expr_h (h' ! c), createChildren_h (h' ! c))) cs
       = map (\<lambda>c. (kind c, expr c, createChildren c)) (Children nav)"
proof -
  define es where "es = rawChildren (createChildren nav) (expr nav)"
  have cs: "cs = [length h ..< length h + length es]"
    and h': "h' = h @ map (childCell a (typeMap_h (h ! a))) es"
    using assms by (simp_all add: Children_h_eq Let_def es_def)
  have "map (\<lambda>c. (kind_h (h' ! c), expr_h (h' ! c), createChildren_h (h' ! c))) cs
      = map (\<lambda>e. (fst (kindOf e), e, snd (kindOf e))) es"
    by (rule nth_equalityI) (simp_all add: cs h' nth_append childCell_def)
  also have "\<dots> = map (\<lambda>c. (kind c, expr c, createChildren c)) (Children nav)"
    by (simp add: Children_rawChildren es_def comp_def createChild_def newNavigableExpr_def
        split: prod.splits)
  finally show ?thesis .
qed

text \<open>
  The example of the specification: the identifiers of \<open>a && (b || c)\<close>, found
  breadth-first, are \<open>a\<close>, \<open>b\<close>, \<open>c\<close>.
\<close>

lemma MatchDescendants_KindMatcher_example:
  "map ID (MatchDescendants (ex_root ex_and_or) (KindMatcher IdentKind)) = [2, 4, 5]"
  by (simp add: MatchDescendants_def matchListInternal_def KindMatcher_def ex_defs nav_eval)

section \<open>Results\<close>

text \<open>
  Claim C1 says that a view taken of a node of another kind is empty: in particular that
  \<open>AsMap\<close> of a Struct-kind node has no entries and \<open>AsStruct\<close> of a Map-kind node no
  fields. The views do not look at the kind. Evaluated on the examples: the map view of the
  struct \<open>T{f: 1}\<close> has size one, and one entry whose value is the literal with identifier 3;
  the struct view of the map \<open>{k: 1}\<close> has one field, with the empty name and the value with
  identifier 4; the list view of the call \<open>greet(name)\<close> has the call's argument as its one
  element.
\<close>

theorem wrong_kind_views_hold_data:
  "Kind (ex_root ex_struct) = StructKind
   \<and> navigableMapImpl_Size (AsMap (ex_root ex_struct)) = 1
   \<and> map (\<lambda>en. (ID (navigableEntryImpl_Key en), ID (navigableEntryImpl_Value en)))
         (navigableMapImpl_Entries (AsMap (ex_root ex_struct))) = [(0, 3)]
   \<and> Kind (ex_root ex_map) = MapKind
   \<and> map (\<lambda>f. (navigableFieldImpl_FieldName f, ID (navigableFieldImpl_Value f)))
         (navigableStructImpl_Fields (AsStruct (ex_root ex_map))) = [([], 4)]
   \<and> Kind (ex_root ex_greet) = CallKind
   \<and> map ID (navigableListImpl_Elements (AsList (ex_root ex_greet))) = [2]"
  by (simp add: ex_defs nav_eval AsMap_def AsStruct_def AsList_def
      navigableEntryImpl_Key_def navigableEntryImpl_Value_def navigableFieldImpl_FieldName_def
      navigableFieldImpl_Value_def)

text \<open>
  Claim C2. The predicate of \<open>ConstantValueMatcher\<close> is true of a node exactly when the
  node's kind is Literal, or its kind is List, Map or Struct and the predicate is true of
  every node that \<open>Children\<close> returns (so it is true of an empty list, map or struct); it
  is false of every node of kind Ident, Select, Call, Comprehension or Unspecified.
\<close>

theorem ConstantValueMatcher_iff:
  "(ConstantValueMatcher e \<longleftrightarrow>
      Kind e = LiteralKind
      \<or> ((Kind e = ListKind \<or> Kind e = MapKind \<or> Kind e = StructKind)
         \<and> (\<forall>c \<in> set (Children e). ConstantValueMatcher c)))
   \<and> (Kind e = IdentKind \<or> Kind e = SelectKind \<or> Kind e = CallKind
        \<or> Kind e = ComprehensionKind \<or> Kind e = UnspecifiedKind
      \<longrightarrow> \<not> ConstantValueMatcher e)"
  unfolding ConstantValueMatcher_def
  by (subst (1 2) matchIsConstantValue.simps) (auto simp: list_all_iff)

theorem ConstantValueMatcher_iff_witness:
  "Kind (ex_root (ex_list 1 [ex_lit 2 ''1'', ex_lit 3 ''2'', ex_lit 4 ''3''])) = ListKind
   \<and> list_all ConstantValueMatcher
         (Children (ex_root (ex_list 1 [ex_lit 2 ''1'', ex_lit 3 ''2'', ex_lit 4 ''3''])))
   \<and> ConstantValueMatcher (ex_root (ex_list 1 [ex_lit 2 ''1'', ex_lit 3 ''2'', ex_lit 4 ''3'']))
   \<and> ConstantValueMatcher (ex_root (ex_list 1 []))
   \<and> Kind (ex_root ex_greet) = CallKind
   \<and> \<not> ConstantValueMatcher (ex_root ex_greet)
   \<and> \<not> ConstantValueMatcher (ex_root (ex_list 1 [ex_lit 2 ''1'', ex_call 3 None ''greet'' []]))"
proof -
  let ?n = "ex_root (ex_list 1 [ex_lit 2 ''1'', ex_lit 3 ''2'', ex_lit 4 ''3''])"
  let ?m = "ex_root (ex_list 1 [ex_lit 2 ''1'', ex_call 3 None ''greet'' []])"
  have k: "Kind ?n = ListKind" by (simp add: ex_defs nav_eval)
  have "\<forall>c \<in> set (Children ?n). Kind c = LiteralKind" by (simp add: ex_defs nav_eval)
  then have kids: "\<forall>c \<in> set (Children ?n). ConstantValueMatcher c"
    using ConstantValueMatcher_iff by blast
  have n: "ConstantValueMatcher ?n"
    using ConstantValueMatcher_iff [of ?n] k kids by blast
  have e: "ConstantValueMatcher (ex_root (ex_list 1 []))"
    using ConstantValueMatcher_iff [of "ex_root (ex_list 1 [])"] by (simp add: ex_defs nav_eval)
  have g: "Kind (ex_root ex_greet) = CallKind" by (simp add: ex_defs nav_eval)
  have ng: "\<not> ConstantValueMatcher (ex_root ex_greet)"
    using ConstantValueMatcher_iff [of "ex_root ex_greet"] g by blast
  have "\<exists>c \<in> set (Children ?m). Kind c = CallKind" by (simp add: ex_defs nav_eval)
  then have "\<exists>c \<in> set (Children ?m). \<not> ConstantValueMatcher c"
    using ConstantValueMatcher_iff by blast
  moreover have "Kind ?m \<noteq> LiteralKind" by (simp add: ex_defs nav_eval)
  ultimately have nm: "\<not> ConstantValueMatcher ?m"
    using ConstantValueMatcher_iff [of ?m] by blast
  from kids have "list_all ConstantValueMatcher (Children ?n)" by (simp add: list_all_iff)
  with k n e g ng nm show ?thesis by blast
qed

text \<open>
  Claim C3. \<open>MatchDescendants\<close> with \<open>AllMatcher\<close> returns the nodes of the tree level by
  level: the root, then its children in the order \<open>Children\<close> gives them, then the children
  of those, parent by parent, and so on for every level of the tree. The result holds every
  node of the tree once (it is a rearrangement of \<open>subtree root\<close>), and its first element is
  the root.
\<close>

theorem MatchDescendants_all_breadth_first:
  "MatchDescendants root AllMatcher = concat (map (nodesAtDepth root) [0..<treeDepth root])
   \<and> mset (MatchDescendants root AllMatcher) = mset (subtree root)
   \<and> MatchDescendants root AllMatcher = root # tl (MatchDescendants root AllMatcher)"
proof -
  have "MatchDescendants root AllMatcher = concat (map (levelFrom [root]) [0..<forestDepth [root]])"
    unfolding MatchDescendants_def by (rule walk_all_levels)
  then have a: "MatchDescendants root AllMatcher
      = concat (map (nodesAtDepth root) [0..<treeDepth root])"
    by (simp add: nodesAtDepth_levelFrom [abs_def])
  have b: "mset (MatchDescendants root AllMatcher) = mset (subtree root)"
    unfolding MatchDescendants_def using walk_all_mset [of "[root]"] by simp
  have c: "MatchDescendants root AllMatcher = root # tl (MatchDescendants root AllMatcher)"
    unfolding MatchDescendants_def by (simp add: walk_all_Cons)
  from a b c show ?thesis by blast
qed

theorem MatchDescendants_all_breadth_first_witness:
  "MatchDescendants (ex_root ex_and_or) AllMatcher
     = [ex_root ex_and_or,
        createChild (ex_root ex_and_or) (ex_ident 2 ''a''),
        createChild (ex_root ex_and_or) (ex_call 3 None ''_||_'' [ex_ident 4 ''b'', ex_ident 5 ''c'']),
        createChild (createChild (ex_root ex_and_or)
          (ex_call 3 None ''_||_'' [ex_ident 4 ''b'', ex_ident 5 ''c''])) (ex_ident 4 ''b''),
        createChild (createChild (ex_root ex_and_or)
          (ex_call 3 None ''_||_'' [ex_ident 4 ''b'', ex_ident 5 ''c''])) (ex_ident 5 ''c'')]
   \<and> map ID (MatchDescendants (ex_root ex_and_or) AllMatcher) = [1, 2, 3, 4, 5]
   \<and> MatchDescendants (ex_root ex_and_or) AllMatcher
       = concat (map (nodesAtDepth (ex_root ex_and_or)) [0..<treeDepth (ex_root ex_and_or)])
   \<and> mset (MatchDescendants (ex_root ex_and_or) AllMatcher) = mset (subtree (ex_root ex_and_or))"
proof -
  have e1: "MatchDescendants (ex_root ex_and_or) AllMatcher
     = [ex_root ex_and_or,
        createChild (ex_root ex_and_or) (ex_ident 2 ''a''),
        createChild (ex_root ex_and_or) (ex_call 3 None ''_||_'' [ex_ident 4 ''b'', ex_ident 5 ''c'']),
        createChild (createChild (ex_root ex_and_or)
          (ex_call 3 None ''_||_'' [ex_ident 4 ''b'', ex_ident 5 ''c''])) (ex_ident 4 ''b''),
        createChild (createChild (ex_root ex_and_or)
          (ex_call 3 None ''_||_'' [ex_ident 4 ''b'', ex_ident 5 ''c''])) (ex_ident 5 ''c'')]"
    by (simp add: MatchDescendants_def matchListInternal_def AllMatcher_def ex_defs nav_eval)
  have e2: "map ID (MatchDescendants (ex_root ex_and_or) AllMatcher) = [1, 2, 3, 4, 5]"
    unfolding e1 by (simp add: ex_defs nav_eval)
  from MatchDescendants_all_breadth_first [of "ex_root ex_and_or"] e1 e2 show ?thesis
    by blast
qed

text \<open>
  Claim C4. \<open>MatchSubset\<close> returns the elements of the given list of which the matcher is
  true, in the order of the list: nothing that is not in the list, and no child of any node.
\<close>

theorem MatchSubset_is_filter:
  "MatchSubset exprs matcher = filter matcher exprs"
  by (simp add: MatchSubset_def matchListInternal_def loop_no_descend)

theorem MatchSubset_is_filter_witness:
  "MatchSubset [ex_root (ex_list 1 [ex_lit 2 ''1'', ex_lit 3 ''2''])] AllMatcher
     = [ex_root (ex_list 1 [ex_lit 2 ''1'', ex_lit 3 ''2''])]
   \<and> Children (ex_root (ex_list 1 [ex_lit 2 ''1'', ex_lit 3 ''2''])) \<noteq> []"
  using MatchSubset_is_filter [of "[ex_root (ex_list 1 [ex_lit 2 ''1'', ex_lit 3 ''2''])]" AllMatcher]
  by (simp add: AllMatcher_def ex_defs nav_eval)

text \<open>
  Claim C5. The children of a Call-kind node are the target, when there is one, followed by
  the arguments in order; \<open>Args\<close> of its call view returns the arguments only; when there
  is no target the two lists are equal.
\<close>

theorem Call_Children_and_Args:
  assumes "nav = newNavigableExpr p e tm" and "Kind nav = CallKind"
  shows "Children nav
           = (case navigableCallImpl_Target (AsCall nav) of None \<Rightarrow> [] | Some t \<Rightarrow> [t])
             @ navigableCallImpl_Args (AsCall nav)
    \<and> navigableCallImpl_Args (AsCall nav) = map (createChild nav) (GetArgs (GetCallExpr e))
    \<and> navigableCallImpl_Target (AsCall nav)
         = (case GetTarget (GetCallExpr e) of None \<Rightarrow> None
            | Some t \<Rightarrow> Some (createChild nav (Some t)))
    \<and> (navigableCallImpl_Target (AsCall nav) = None
         \<longrightarrow> Children nav = navigableCallImpl_Args (AsCall nav))"
proof -
  have f: "createChildren nav = CallArgFactory"
    using assms by (simp add: createChildren_newNavigableExpr Kind_newNavigableExpr kindOf_CallKind)
  have e: "ToExpr nav = e" using assms(1) by (simp add: ToExpr_newNavigableExpr)
  show ?thesis
    by (cases "GetTarget (GetCallExpr e)")
      (simp_all add: Children_def f callArgFactory_def AsCall_def e Let_def)
qed

theorem Call_Children_and_Args_witness:
  "Kind (ex_root ex_method) = CallKind
   \<and> Children (ex_root ex_method) = [createChild (ex_root ex_method) (ex_ident 2 ''name'')]
   \<and> navigableCallImpl_Args (AsCall (ex_root ex_method)) = []
   \<and> navigableCallImpl_Target (AsCall (ex_root ex_method))
       = Some (createChild (ex_root ex_method) (ex_ident 2 ''name''))
   \<and> Kind (ex_root ex_greet) = CallKind
   \<and> navigableCallImpl_Target (AsCall (ex_root ex_greet)) = None
   \<and> Children (ex_root ex_greet) = [createChild (ex_root ex_greet) (ex_ident 2 ''name'')]
   \<and> navigableCallImpl_Args (AsCall (ex_root ex_greet)) = Children (ex_root ex_greet)"
proof -
  have m: "ex_root ex_method = newNavigableExpr None ex_method Map.empty"
    and g: "ex_root ex_greet = newNavigableExpr None ex_greet Map.empty"
    by (simp_all add: ex_root_def)
  have km: "Kind (ex_root ex_method) = CallKind" and kg: "Kind (ex_root ex_greet) = CallKind"
    by (simp_all add: ex_defs nav_eval)
  have tm: "GetTarget (GetCallExpr ex_method) = ex_ident 2 ''name''"
    and am: "GetArgs (GetCallExpr ex_method) = []"
    and tg: "GetTarget (GetCallExpr ex_greet) = None"
    and ag: "GetArgs (GetCallExpr ex_greet) = [ex_ident 2 ''name'']"
    by (simp_all add: ex_defs nav_eval)
  show ?thesis
    using Call_Children_and_Args [OF m km] Call_Children_and_Args [OF g kg] km kg
    by (simp add: tm am tg ag ex_ident_def)
qed

text \<open>
  Claim C6. The kind and the children of a constructed node follow the table, row by row:
  a constant and an identifier have no children; a select has its operand; a call its
  target, if any, then its arguments; a list its elements; a struct-or-map node with a
  non-empty type name is a Struct whose children are the field values in order, and with
  an empty type name a Map whose children are key then value of each entry in order; a
  comprehension has iteration range, accumulator initialiser, loop condition, loop step and
  result, in this order; a node with no variant set is Unspecified and has no children.
\<close>

theorem kindOf_table:
  "(GetExprKind e = Expr_ConstExpr c \<longrightarrow>
      Kind (newNavigableExpr p e tm) = LiteralKind \<and> Children (newNavigableExpr p e tm) = [])
   \<and> (GetExprKind e = Expr_IdentExpr n \<longrightarrow>
      Kind (newNavigableExpr p e tm) = IdentKind \<and> Children (newNavigableExpr p e tm) = [])
   \<and> (GetExprKind e = Expr_SelectExpr sel \<longrightarrow>
      Kind (newNavigableExpr p e tm) = SelectKind
      \<and> Children (newNavigableExpr p e tm) = [createChild (newNavigableExpr p e tm) (GetOperand sel)])
   \<and> (GetExprKind e = Expr_CallExpr call \<longrightarrow>
      Kind (newNavigableExpr p e tm) = CallKind
      \<and> Children (newNavigableExpr p e tm)
          = map (createChild (newNavigableExpr p e tm))
              ((case GetTarget call of None \<Rightarrow> [] | Some t \<Rightarrow> [Some t]) @ GetArgs call))
   \<and> (GetExprKind e = Expr_ListExpr l \<longrightarrow>
      Kind (newNavigableExpr p e tm) = ListKind
      \<and> Children (newNavigableExpr p e tm)
          = map (createChild (newNavigableExpr p e tm)) (GetElements l))
   \<and> (GetExprKind e = Expr_StructExpr s \<and> GetMessageName s \<noteq> [] \<longrightarrow>
      Kind (newNavigableExpr p e tm) = StructKind
      \<and> Children (newNavigableExpr p e tm)
          = map (createChild (newNavigableExpr p e tm)) (map GetValue (GetEntries s)))
   \<and> (GetExprKind e = Expr_StructExpr s \<and> GetMessageName s = [] \<longrightarrow>
      Kind (newNavigableExpr p e tm) = MapKind
      \<and> Children (newNavigableExpr p e tm)
          = map (createChild (newNavigableExpr p e tm))
              (concat (map (\<lambda>en. [GetMapKey en, GetValue en]) (GetEntries s))))
   \<and> (GetExprKind e = Expr_ComprehensionExpr compre \<longrightarrow>
      Kind (newNavigableExpr p e tm) = ComprehensionKind
      \<and> Children (newNavigableExpr p e tm)
          = map (createChild (newNavigableExpr p e tm))
              [GetIterRange compre, GetAccuInit compre, GetLoopCondition compre,
               GetLoopStep compre, GetResult compre])
   \<and> (GetExprKind e = ExprKind_nil \<longrightarrow>
      Kind (newNavigableExpr p e tm) = UnspecifiedKind \<and> Children (newNavigableExpr p e tm) = [])"
  by (auto simp: Kind_newNavigableExpr Children_def createChildren_newNavigableExpr
      ToExpr_newNavigableExpr kindOf_def noopFactory_def selectFactory_def callArgFactory_def
      listElemFactory_def structEntryFactory_def mapEntryFactory_def comprehensionFactory_def
      GetSelectExpr_def GetCallExpr_def GetListExpr_def GetStructExpr_def
      GetComprehensionExpr_def Let_def map_concat comp_def split: option.splits)


theorem kindOf_table_witness:
  "GetExprKind ex_struct
     = Expr_StructExpr (Some (Expr_CreateStruct ''T''
         [Some (Expr_CreateStruct_Entry 2 (Entry_FieldKey ''f'') (ex_lit 3 ''1'') False)]))
   \<and> Kind (ex_root ex_struct) = StructKind
   \<and> Children (ex_root ex_struct) = [createChild (ex_root ex_struct) (ex_lit 3 ''1'')]
   \<and> GetExprKind ex_map
       = Expr_StructExpr (Some (Expr_CreateStruct []
           [Some (Expr_CreateStruct_Entry 2 (Entry_MapKey (ex_lit 3 ''k'')) (ex_lit 4 ''1'')
              False)]))
   \<and> Kind (ex_root ex_map) = MapKind
   \<and> Children (ex_root ex_map)
       = [createChild (ex_root ex_map) (ex_lit 3 ''k''), createChild (ex_root ex_map) (ex_lit 4 ''1'')]
   \<and> Kind (ex_root ex_comprehension) = ComprehensionKind
   \<and> Children (ex_root ex_comprehension)
       = map (createChild (ex_root ex_comprehension))
           [ex_ident 2 ''items'', ex_lit 3 ''0'', ex_lit 4 ''true'',
            ex_call 5 None ''_+_'' [ex_ident 6 ''sum'', ex_ident 7 ''x''], ex_ident 8 ''sum'']
   \<and> GetExprKind (Some (Expr 9 ExprKind_nil)) = (ExprKind_nil :: string isExpr_ExprKind)
   \<and> Kind (ex_root (Some (Expr 9 ExprKind_nil))) = UnspecifiedKind
   \<and> Children (ex_root (Some (Expr 9 ExprKind_nil))) = []"
proof -
  let ?s = "Some (Expr_CreateStruct ''T''
         [Some (Expr_CreateStruct_Entry 2 (Entry_FieldKey ''f'') (ex_lit 3 ''1'') False)])"
  let ?m = "Some (Expr_CreateStruct []
           [Some (Expr_CreateStruct_Entry 2 (Entry_MapKey (ex_lit 3 ''k'')) (ex_lit 4 ''1'')
              False)])"
  let ?c = "Some (Expr_Comprehension ''x'' (ex_ident 2 ''items'')
       ''sum'' (ex_lit 3 ''0'') (ex_lit 4 ''true'')
       (ex_call 5 None ''_+_'' [ex_ident 6 ''sum'', ex_ident 7 ''x'']) (ex_ident 8 ''sum''))"
  have s: "GetExprKind ex_struct = Expr_StructExpr ?s" "GetMessageName ?s \<noteq> []"
    by (simp_all add: ex_struct_def)
  have m: "GetExprKind ex_map = Expr_StructExpr ?m" "GetMessageName ?m = []"
    by (simp_all add: ex_map_def)
  have c: "GetExprKind ex_comprehension = Expr_ComprehensionExpr ?c"
    by (simp add: ex_comprehension_def)
  have u: "GetExprKind (Some (Expr 9 ExprKind_nil)) = (ExprKind_nil :: string isExpr_ExprKind)"
    by simp
  have "Kind (ex_root ex_struct) = StructKind
      \<and> Children (ex_root ex_struct) = [createChild (ex_root ex_struct) (ex_lit 3 ''1'')]"
    using kindOf_table [where e = ex_struct and s = ?s and p = None
        and tm = "Map.empty :: 64 word \<rightharpoonup> string"] s
    by (simp add: ex_root_def)
  moreover have "Kind (ex_root ex_map) = MapKind
      \<and> Children (ex_root ex_map)
        = [createChild (ex_root ex_map) (ex_lit 3 ''k''), createChild (ex_root ex_map) (ex_lit 4 ''1'')]"
    using kindOf_table [where e = ex_map and s = ?m and p = None
        and tm = "Map.empty :: 64 word \<rightharpoonup> string"] m
    by (simp add: ex_root_def GetMapKey_def)
  moreover have "Kind (ex_root ex_comprehension) = ComprehensionKind
      \<and> Children (ex_root ex_comprehension)
        = map (createChild (ex_root ex_comprehension))
           [ex_ident 2 ''items'', ex_lit 3 ''0'', ex_lit 4 ''true'',
            ex_call 5 None ''_+_'' [ex_ident 6 ''sum'', ex_ident 7 ''x''], ex_ident 8 ''sum'']"
    using kindOf_table [where e = ex_comprehension and compre = ?c and p = None
        and tm = "Map.empty :: 64 word \<rightharpoonup> string"] c
    by (simp add: ex_root_def)
  moreover have "Kind (ex_root (Some (Expr 9 ExprKind_nil))) = UnspecifiedKind
      \<and> Children (ex_root (Some (Expr 9 ExprKind_nil))) = []"
    using kindOf_table [where e = "Some (Expr 9 ExprKind_nil)" and p = None
        and tm = "Map.empty :: 64 word \<rightharpoonup> string"] u
    by (simp add: ex_root_def)
  ultimately show ?thesis using s m u by simp
qed

text \<open>
  Claim C7. When \<open>AsLiteral\<close> is called on a node of kind Literal and the conversion function
  fails on the node's payload, \<open>AsLiteral\<close> panics with the error of the conversion: it
  returns neither a value nor nil.
\<close>

theorem AsLiteral_panics:
  "Kind nav = LiteralKind \<Longrightarrow> ConstantToVal (GetConstExpr (ToExpr nav)) = Inl err \<Longrightarrow>
     AsLiteral ConstantToVal nav = ([GetConstExpr (ToExpr nav)], Inl err)"
  by (simp add: AsLiteral_def)

theorem AsLiteral_panics_witness:
  "Kind (ex_root (ex_lit 1 ''bad'')) = LiteralKind
   \<and> ex_ConstantToVal (GetConstExpr (ToExpr (ex_root (ex_lit 1 ''bad'')))) = Inl ''malformed''
   \<and> AsLiteral ex_ConstantToVal (ex_root (ex_lit 1 ''bad'')) = ([Some ''bad''], Inl ''malformed'')"
proof -
  have k: "Kind (ex_root (ex_lit 1 ''bad'')) = LiteralKind" by (simp add: ex_defs nav_eval)
  have c: "ex_ConstantToVal (GetConstExpr (ToExpr (ex_root (ex_lit 1 ''bad'')))) = Inl ''malformed''"
    by (simp add: ex_defs nav_eval)
  have g: "GetConstExpr (ToExpr (ex_root (ex_lit 1 ''bad''))) = Some ''bad''"
    by (simp add: ex_defs nav_eval)
  show ?thesis
    using AsLiteral_panics [of "ex_root (ex_lit 1 ''bad'')" ex_ConstantToVal "''malformed''"] k c g
    by simp
qed

text \<open>
  Claim C8. \<open>Type\<close> returns the type the shared type map gives for the node's identifier
  when there is one, and the dynamic type when there is none.
\<close>

theorem Type_lookup:
  "(tm (GetId e) = Some t \<longrightarrow> Type DynType (newNavigableExpr p e tm) = t)
   \<and> (tm (GetId e) = None \<longrightarrow> Type DynType (newNavigableExpr p e tm) = DynType)"
  by (simp add: Type_def ID_def ToExpr_def newNavigableExpr_def split: prod.splits)

theorem Type_lookup_witness:
  "[1 \<mapsto> ''int''] (GetId (ex_lit 1 ''7'')) = Some ''int''
   \<and> Type ''dyn'' (newNavigableExpr None (ex_lit 1 ''7'') [1 \<mapsto> ''int'']) = ''int''
   \<and> [1 \<mapsto> ''int''] (GetId (ex_lit 2 ''8'')) = None
   \<and> Type ''dyn'' (newNavigableExpr None (ex_lit 2 ''8'') [1 \<mapsto> ''int'']) = ''dyn''"
proof -
  have a: "[1 \<mapsto> ''int''] (GetId (ex_lit 1 ''7'')) = Some ''int''" by (simp add: ex_defs)
  have b: "[1 \<mapsto> ''int''] (GetId (ex_lit 2 ''8'')) = None" by (simp add: ex_defs)
  show ?thesis
    using Type_lookup [of "[1 \<mapsto> ''int'']" "ex_lit 1 ''7''" "''int''" "''dyn''" None]
      Type_lookup [of "[1 \<mapsto> ''int'']" "ex_lit 2 ''8''" "''int''" "''dyn''" None] a b
    by blast
qed

text \<open>
  Claim C9. Two successive calls of \<open>Children\<close> on a node return lists of the same length
  whose nodes have, position by position, the same identifier and the same kind. Stated on
  the heap: the second call runs on the heap the first call left; no handle of the second
  list is a handle of the first.
\<close>

theorem Children_h_twice:
  assumes "nav < length h"
    and "Children_h h nav = (cs1, h1)"
    and "Children_h h1 nav = (cs2, h2)"
  shows "length cs1 = length cs2
    \<and> (\<forall>i < length cs1.
          ID_h h2 (cs1 ! i) = ID_h h2 (cs2 ! i) \<and> Kind_h h2 (cs1 ! i) = Kind_h h2 (cs2 ! i))
    \<and> set cs1 \<inter> set cs2 = {}"
proof -
  define es where "es = rawChildren (createChildren_h (h ! nav)) (expr_h (h ! nav))"
  define tm where "tm = typeMap_h (h ! nav)"
  have cs1: "cs1 = [length h ..< length h + length es]"
    and h1: "h1 = h @ map (childCell nav tm) es"
    using assms(1,2) by (simp_all add: Children_h_eq Let_def es_def tm_def)
  have nav1: "nav < length h1" and same: "h1 ! nav = h ! nav"
    using assms(1) by (simp_all add: h1 nth_append)
  have cs2: "cs2 = [length h1 ..< length h1 + length es]"
    and h2: "h2 = h1 @ map (childCell nav tm) es"
    using assms(3) nav1 by (simp_all add: Children_h_eq Let_def es_def tm_def same)
  have len: "length cs1 = length cs2" by (simp add: cs1 cs2)
  have pointwise: "ID_h h2 (cs1 ! i) = ID_h h2 (cs2 ! i) \<and> Kind_h h2 (cs1 ! i) = Kind_h h2 (cs2 ! i)"
    if "i < length cs1" for i
  proof -
    from that have i: "i < length es" by (simp add: cs1)
    have a: "h2 ! (cs1 ! i) = childCell nav tm (es ! i)"
      using i by (simp add: cs1 h2 h1 nth_append)
    have b: "h2 ! (cs2 ! i) = childCell nav tm (es ! i)"
      using i by (simp add: cs2 h2 nth_append)
    show ?thesis by (simp add: ID_h_def Kind_h_def ToExpr_h_def a b)
  qed
  have disj: "set cs1 \<inter> set cs2 = {}"
    by (auto simp: cs1 cs2 h1)
  from len pointwise disj show ?thesis by blast
qed

theorem Children_h_twice_witness:
  "0 < length ex_heap
   \<and> fst (Children_h ex_heap 0) = [1, 2]
   \<and> fst (Children_h (snd (Children_h ex_heap 0)) 0) = [3, 4]
   \<and> ID_h (snd (Children_h (snd (Children_h ex_heap 0)) 0)) 1
       = ID_h (snd (Children_h (snd (Children_h ex_heap 0)) 0)) 3
   \<and> Kind_h (snd (Children_h (snd (Children_h ex_heap 0)) 0)) 1
       = Kind_h (snd (Children_h (snd (Children_h ex_heap 0)) 0)) 3
   \<and> ID_h (snd (Children_h (snd (Children_h ex_heap 0)) 0)) 2
       = ID_h (snd (Children_h (snd (Children_h ex_heap 0)) 0)) 4
   \<and> Kind_h (snd (Children_h (snd (Children_h ex_heap 0)) 0)) 2
       = Kind_h (snd (Children_h (snd (Children_h ex_heap 0)) 0)) 4
   \<and> ID_h (snd (Children_h (snd (Children_h ex_heap 0)) 0)) 1 = 2
   \<and> ID_h (snd (Children_h (snd (Children_h ex_heap 0)) 0)) 2 = 3"
proof -
  let ?h2 = "snd (Children_h (snd (Children_h ex_heap 0)) 0)"
  have v: "0 < length ex_heap" by (simp add: heap_eval ex_defs nav_eval)
  have a: "fst (Children_h ex_heap 0) = [1, 2]" by (simp add: heap_eval ex_defs nav_eval)
  have b: "fst (Children_h (snd (Children_h ex_heap 0)) 0) = [3, 4]"
    by (simp add: heap_eval ex_defs nav_eval)
  have c: "ID_h ?h2 1 = 2" "ID_h ?h2 2 = 3"
    by (simp_all add: heap_eval ex_defs nav_eval)
  have r1: "Children_h ex_heap 0 = (fst (Children_h ex_heap 0), snd (Children_h ex_heap 0))"
    by simp
  have r2: "Children_h (snd (Children_h ex_heap 0)) 0
      = (fst (Children_h (snd (Children_h ex_heap 0)) 0), ?h2)"
    by simp
  have all: "\<forall>i < length [1, 2 :: nat].
      ID_h ?h2 ([1, 2] ! i) = ID_h ?h2 ([3, 4] ! i)
      \<and> Kind_h ?h2 ([1, 2] ! i) = Kind_h ?h2 ([3, 4] ! i)"
    using Children_h_twice [OF v r1 r2] unfolding a b by blast
  have "ID_h ?h2 1 = ID_h ?h2 3 \<and> Kind_h ?h2 1 = Kind_h ?h2 3"
    using all [rule_format, of 0] by simp
  moreover have "ID_h ?h2 2 = ID_h ?h2 4 \<and> Kind_h ?h2 2 = Kind_h ?h2 4"
    using all [rule_format, of 1] by simp
  ultimately show ?thesis using v a b c by simp
qed

text \<open>
  Claim C10. \<open>AsLiteral\<close> on a node whose kind is not Literal returns nil and does not call
  the conversion function, whatever that function is: it cannot panic.
\<close>

theorem AsLiteral_wrong_kind:
  "Kind nav \<noteq> LiteralKind \<Longrightarrow> AsLiteral ConstantToVal nav = ([], Inr None)"
  by (simp add: AsLiteral_def)

theorem AsLiteral_wrong_kind_witness:
  "Kind (ex_root (ex_ident 1 ''x'')) \<noteq> LiteralKind
   \<and> AsLiteral ex_ConstantToVal (ex_root (ex_ident 1 ''x'')) = ([], Inr None)"
proof -
  have k: "Kind (ex_root (ex_ident 1 ''x'')) \<noteq> LiteralKind" by (simp add: ex_defs nav_eval)
  show ?thesis using AsLiteral_wrong_kind [OF k, of ex_ConstantToVal] k by simp
qed

end
